theory Spec2Isabelle
  imports Main
begin

section \<open>Values exchanged with callers and with the chain\<close>

text \<open>
  The templates client of the SDK (\<^verbatim>\<open>TemplatesTransactions\<close>, \<^verbatim>\<open>TemplatesClient\<close>,
  \<^verbatim>\<open>TemplatesGasEstimates\<close>, \<^verbatim>\<open>TemplatesCallData\<close>) is embedded as functions over
  explicit values. A thrown error is \<open>Inl\<close> of a sum, \<^verbatim>\<open>undefined\<close> is \<open>None\<close>, and
  every awaited call to a collaborator is recorded in a list of calls, in the order the
  code performs them.
\<close>

type_synonym address = string

definition AddressZero :: address where
  "AddressZero = ''0x0000000000000000000000000000000000000000''"

datatype Provider = Provider string

datatype Signer = Signer string

datatype TransactionType = Transaction | CallData | GasEstimate

datatype error =
    InvalidArgumentError
  | ValidationError string
  | InvalidConfigError
  | UnsupportedChainIdError nat "nat list"
  | MissingProviderError
  | MissingSignerError
  | TransactionFailedError
  | Error string
  | TransportError string

text \<open>
  A decoded log. \<open>args\<close> is \<open>None\<close> where ethers leaves \<^verbatim>\<open>event.args\<close> undefined; the
  decoded arguments of the \<^verbatim>\<open>CreateRecoup\<close> event hold the created module's address.
\<close>

record Result =
  waterfallModule :: address

record Event =
  blockNumber :: nat
  topic :: string
  args :: "Result option"

text \<open>
  The handle of a submitted transaction. \<open>wait\<close> is what awaiting its inclusion gives:
  the logs of the mined transaction, or the transport's error.
\<close>

record ContractTransaction =
  txHash :: string
  wait :: "error + Event list"

record CallData =
  target :: address
  callValue :: int
  data :: string

text \<open>\<^verbatim>\<open>TransactionFormat = ContractTransaction | BigNumber | CallData\<close>\<close>

datatype TransactionFormat =
    TxContractTransaction ContractTransaction
  | TxBigNumber int
  | TxCallData CallData

record 't CreateRecoupConfig =
  token :: address
  tranches :: "'t list"
  nonWaterfallRecipientAddress :: "address option"
  nonWaterfallRecipientTrancheIndex :: "int option"

text \<open>A default parameter \<^verbatim>\<open>nonWaterfallRecipientAddress = AddressZero\<close>.\<close>

definition orAddressZero :: "address option \<Rightarrow> address" where
  "orAddressZero a = (case a of None \<Rightarrow> AddressZero | Some x \<Rightarrow> x)"

record SplitsClientConfig =
  chainId :: nat
  provider :: "Provider option"
  ensProvider :: "Provider option"
  signer :: "Signer option"
  includeEnsNames :: "bool option"

text \<open>The calls a method makes to its collaborators (transport, contract, receipt).\<close>

datatype ('t, 'rt, 'sz) call =
    GetRecoupTranchesAndSizes nat address "'t list" Provider
  | ContractCreateRecoup TransactionType address address address "int option" 'rt 'sz
  | TransactionWait string

text \<open>
  What a method does: it throws or returns, and it has made calls. \<open>andThen\<close> is the
  sequencing of \<^verbatim>\<open>await\<close> and of statements: a throw ends the method with the calls
  made so far.
\<close>

type_synonym ('a, 'c) io = "(error + 'a) \<times> 'c list"

definition ok :: "'a \<Rightarrow> ('a, 'c) io" where
  "ok x = (Inr x, [])"

definition throw :: "error \<Rightarrow> ('a, 'c) io" where
  "throw e = (Inl e, [])"

definition sync :: "error + 'a \<Rightarrow> ('a, 'c) io" where
  "sync r = (r, [])"

definition await :: "'c \<Rightarrow> error + 'a \<Rightarrow> ('a, 'c) io" where
  "await c r = (r, [c])"

definition andThen :: "('a, 'c) io \<Rightarrow> ('a \<Rightarrow> ('b, 'c) io) \<Rightarrow> ('b, 'c) io" where
  "andThen m f =
     (case fst m of
        Inl e \<Rightarrow> (Inl e, snd m)
      | Inr x \<Rightarrow> (fst (f x), snd m @ snd (f x)))"

section \<open>Collaborators outside the sources\<close>

text \<open>
  The constant tables, the ABI, the ethers address checksum, the tranche validator and
  formatter and the contract object are not among the sources: they are parameters.
  \<open>recoupContract_createRecoup\<close> is the \<^verbatim>\<open>createRecoup\<close> method of the object that
  \<^verbatim>\<open>_getTransactionContract\<close> builds for a transaction type and a contract address; it
  may answer with any \<open>TransactionFormat\<close>.
\<close>

record ('t, 'rt, 'sz) env =
  TEMPLATES_CHAIN_IDS :: "nat list"
  getRecoupAddress :: "nat \<Rightarrow> address"
  getEventTopic :: "string \<Rightarrow> string"
  checksumValid :: "string \<Rightarrow> bool"
  validateRecoupTranches :: "'t list \<Rightarrow> error + unit"
  getRecoupTranchesAndSizes ::
    "nat \<Rightarrow> address \<Rightarrow> 't list \<Rightarrow> Provider \<Rightarrow> error + ('rt \<times> 'sz)"
  recoupContract_createRecoup ::
    "TransactionType \<Rightarrow> address \<Rightarrow> address \<Rightarrow> address \<Rightarrow> int option \<Rightarrow> 'rt \<Rightarrow> 'sz
       \<Rightarrow> error + TransactionFormat"

section \<open>Validation\<close>

text \<open>Twenty bytes in hexadecimal after the prefix \<^verbatim>\<open>0x\<close>.\<close>

definition isHexDigit :: "char \<Rightarrow> bool" where
  "isHexDigit c = (c \<in> set ''0123456789abcdefABCDEF'')"

definition is20Bytes :: "string \<Rightarrow> bool" where
  "is20Bytes a = (length a = 42 \<and> take 2 a = ''0x'' \<and> list_all isHexDigit (drop 2 a))"

text \<open>
  Modelled from the spec: \<^verbatim>\<open>validateAddress\<close> of \<^verbatim>\<open>../utils/validation\<close> is missing.
  The spec's constraint is "address must be 20 bytes / checksum-valid", and a
  single-field violation is a \<^verbatim>\<open>ValidationError\<close> carrying the constraint.
\<close>

definition validateAddress :: "('t, 'rt, 'sz) env \<Rightarrow> string \<Rightarrow> error + unit" where
  "validateAddress env a =
     (if is20Bytes a \<and> checksumValid env a then Inr ()
      else Inl (ValidationError ''address must be 20 bytes / checksum-valid''))"

text \<open>
  Modelled from the spec: \<^verbatim>\<open>validateRecoupNonWaterfallRecipient\<close> of
  \<^verbatim>\<open>../utils/validation\<close> is missing. The spec's cross-field rule: the tranche index
  must be undefined exactly when the recipient address is the zero sentinel, and must
  reference a valid tranche index otherwise; a mismatch is an \<^verbatim>\<open>InvalidArgumentError\<close>.
\<close>

definition validateRecoupNonWaterfallRecipient ::
    "nat \<Rightarrow> address \<Rightarrow> int option \<Rightarrow> error + unit" where
  "validateRecoupNonWaterfallRecipient numTranches recipientAddress trancheIndex =
     (if recipientAddress = AddressZero then
        (case trancheIndex of
           None \<Rightarrow> Inr ()
         | Some i \<Rightarrow> Inl InvalidArgumentError)
      else
        (case trancheIndex of
           None \<Rightarrow> Inl InvalidArgumentError
         | Some i \<Rightarrow>
             if 0 \<le> i \<and> i < int numTranches then Inr () else Inl InvalidArgumentError))"

section \<open>The base class\<close>

record BaseTransactions =
  this_transactionType :: TransactionType
  this_chainId :: nat
  this_provider :: "Provider option"
  this_ensProvider :: "Provider option"
  this_signer :: "Signer option"
  this_includeEnsNames :: bool
  this_shouldRequireSigner :: bool

text \<open>
  Modelled from the spec: the constructor of \<^verbatim>\<open>BaseTransactions\<close> (\<^verbatim>\<open>./base\<close>) is
  missing. The repository's test "Including ens names with no provider fails" gives
  its one failure, \<^verbatim>\<open>InvalidConfigError\<close>; the spec gives the signer requirement: a
  signer is required exactly in the submitting mode.
\<close>

definition BaseTransactions_new ::
    "TransactionType \<Rightarrow> SplitsClientConfig \<Rightarrow> error + BaseTransactions" where
  "BaseTransactions_new transactionType cfg =
     (let includeEns = (case includeEnsNames cfg of None \<Rightarrow> False | Some b \<Rightarrow> b) in
      if includeEns \<and> provider cfg = None \<and> ensProvider cfg = None then Inl InvalidConfigError
      else Inr \<lparr> this_transactionType = transactionType,
                 this_chainId = chainId cfg,
                 this_provider = provider cfg,
                 this_ensProvider = ensProvider cfg,
                 this_signer = signer cfg,
                 this_includeEnsNames = includeEns,
                 this_shouldRequireSigner = (transactionType = Transaction) \<rparr>)"

text \<open>
  Modelled from the spec: \<^verbatim>\<open>_requireProvider\<close> and \<^verbatim>\<open>_requireSigner\<close> of the base class
  are missing. "A provider/transport must be configured, else fails with
  MissingProviderError"; "a signer capable of submitting must be configured, else
  fails with MissingSignerError".
\<close>

definition requireProvider :: "'z BaseTransactions_scheme \<Rightarrow> error + unit" where
  "requireProvider c =
     (case this_provider c of None \<Rightarrow> Inl MissingProviderError | Some p \<Rightarrow> Inr ())"

definition requireSigner :: "'z BaseTransactions_scheme \<Rightarrow> error + unit" where
  "requireSigner c =
     (case this_signer c of None \<Rightarrow> Inl MissingSignerError | Some s \<Rightarrow> Inr ())"

text \<open>
  Modelled from the spec: the type guards \<^verbatim>\<open>_isContractTransaction\<close>, \<^verbatim>\<open>_isBigNumber\<close>
  and \<^verbatim>\<open>_isCallData\<close> of the base class are missing. The transaction result is a tagged
  union, and each guard recognises its own tag.
\<close>

definition isContractTransaction :: "TransactionFormat \<Rightarrow> bool" where
  "isContractTransaction r = (case r of TxContractTransaction tx \<Rightarrow> True | _ \<Rightarrow> False)"

definition isBigNumber :: "TransactionFormat \<Rightarrow> bool" where
  "isBigNumber r = (case r of TxBigNumber n \<Rightarrow> True | _ \<Rightarrow> False)"

definition isCallData :: "TransactionFormat \<Rightarrow> bool" where
  "isCallData r = (case r of TxCallData d \<Rightarrow> True | _ \<Rightarrow> False)"

text \<open>
  Modelled from the spec: \<^verbatim>\<open>getTransactionEvents\<close> of \<^verbatim>\<open>../utils\<close> is missing. It awaits
  the transaction and scans the logs of the mined transaction for those whose topic is
  one of the candidate topics, in log order; a transport error propagates unmodified.
\<close>

definition getTransactionEvents ::
    "ContractTransaction \<Rightarrow> string list \<Rightarrow> (Event list, ('t, 'rt, 'sz) call) io" where
  "getTransactionEvents transaction eventTopics =
     await (TransactionWait (txHash transaction))
       (case wait transaction of
          Inl e \<Rightarrow> Inl e
        | Inr logs \<Rightarrow> Inr (filter (\<lambda>e. topic e \<in> set eventTopics) logs))"

section \<open>TemplatesTransactions\<close>

record TemplatesTransactions = BaseTransactions +
  this_recoupContract :: "TransactionType \<times> address"

text \<open>
  Modelled from the spec: \<^verbatim>\<open>_getTransactionContract\<close> of the base class is missing. The
  object it builds is identified by the transaction type it is built for and the
  address of the contract, which \<^verbatim>\<open>getRecoupAddress\<close> resolves from the constant tables.
\<close>

definition getRecoupContract ::
    "('t, 'rt, 'sz) env \<Rightarrow> BaseTransactions \<Rightarrow> TransactionType \<times> address" where
  "getRecoupContract env b = (this_transactionType b, getRecoupAddress env (this_chainId b))"

text \<open>
  The constructors, in the form of the methods: the object or the error thrown, and the
  calls made on the way. The statements of the source are synchronous and await
  nothing. Of the code they run that is missing, the base constructor and
  \<^verbatim>\<open>_getTransactionContract\<close> follow the spec: registry entries and descriptors are built
  at initialisation by "a pure mapping lookup, no network access".
\<close>

definition TemplatesTransactions_constructor ::
    "('t, 'rt, 'sz) env \<Rightarrow> TransactionType \<Rightarrow> SplitsClientConfig
       \<Rightarrow> (TemplatesTransactions, ('t, 'rt, 'sz) call) io" where
  "TemplatesTransactions_constructor env transactionType cfg =
     andThen (sync (BaseTransactions_new transactionType cfg)) (\<lambda>b.
       ok (BaseTransactions.extend b
             (TemplatesTransactions.fields (getRecoupContract env b))))"

definition createRecoupTransaction ::
    "('t, 'rt, 'sz) env \<Rightarrow> 'z TemplatesTransactions_scheme \<Rightarrow> 't CreateRecoupConfig
       \<Rightarrow> (TransactionFormat, ('t, 'rt, 'sz) call) io" where
  "createRecoupTransaction env c cfg =
     (let tok = token cfg;
          trs = tranches cfg;
          nonWaterfallRecipient = orAddressZero (nonWaterfallRecipientAddress cfg);
          trancheIndex = nonWaterfallRecipientTrancheIndex cfg
      in
      andThen (sync (validateAddress env tok)) (\<lambda>_.
      andThen (sync (validateAddress env nonWaterfallRecipient)) (\<lambda>_.
      andThen (sync (validateRecoupTranches env trs)) (\<lambda>_.
      andThen (sync (validateRecoupNonWaterfallRecipient (length trs)
                       nonWaterfallRecipient trancheIndex)) (\<lambda>_.
      andThen (sync (requireProvider c)) (\<lambda>_.
      andThen (case this_provider c of
                 None \<Rightarrow> throw (Error ''Provider required'')
               | Some p \<Rightarrow> ok p) (\<lambda>p.
      andThen (if this_shouldRequireSigner c then sync (requireSigner c) else ok ()) (\<lambda>_.
      andThen (await (GetRecoupTranchesAndSizes (this_chainId c) tok trs p)
                 (getRecoupTranchesAndSizes env (this_chainId c) tok trs p))
        (\<lambda>(recoupTranches, trancheSizes).
      await (ContractCreateRecoup (fst (this_recoupContract c)) (snd (this_recoupContract c))
               tok nonWaterfallRecipient trancheIndex recoupTranches trancheSizes)
        (recoupContract_createRecoup env (fst (this_recoupContract c))
           (snd (this_recoupContract c))
           tok nonWaterfallRecipient trancheIndex recoupTranches trancheSizes))))))))))"

text \<open>
  The four validation calls that open \<^verbatim>\<open>_createRecoupTransaction\<close>, in the order of the
  source, with the default of the recipient address applied: the error of the first
  one that throws, or \<open>Inr ()\<close>.
\<close>

definition createRecoupValidation ::
    "('t, 'rt, 'sz) env \<Rightarrow> 't CreateRecoupConfig \<Rightarrow> error + unit" where
  "createRecoupValidation env cfg =
     (let nonWaterfallRecipient = orAddressZero (nonWaterfallRecipientAddress cfg) in
      case validateAddress env (token cfg) of
        Inl e \<Rightarrow> Inl e
      | Inr _ \<Rightarrow>
      (case validateAddress env nonWaterfallRecipient of
        Inl e \<Rightarrow> Inl e
      | Inr _ \<Rightarrow>
      (case validateRecoupTranches env (tranches cfg) of
        Inl e \<Rightarrow> Inl e
      | Inr _ \<Rightarrow>
        validateRecoupNonWaterfallRecipient (length (tranches cfg)) nonWaterfallRecipient
          (nonWaterfallRecipientTrancheIndex cfg))))"

section \<open>The three clients\<close>

text \<open>
  Each public method destructures its argument with the defaults
  \<^verbatim>\<open>nonWaterfallRecipientAddress = AddressZero\<close> and
  \<^verbatim>\<open>nonWaterfallRecipientTrancheIndex = undefined\<close> and passes the four fields on.
\<close>

definition withDefaults :: "'t CreateRecoupConfig \<Rightarrow> 't CreateRecoupConfig" where
  "withDefaults cfg =
     \<lparr> token = token cfg,
       tranches = tranches cfg,
       nonWaterfallRecipientAddress = Some (orAddressZero (nonWaterfallRecipientAddress cfg)),
       nonWaterfallRecipientTrancheIndex = nonWaterfallRecipientTrancheIndex cfg \<rparr>"

definition TemplatesGasEstimates_constructor ::
    "('t, 'rt, 'sz) env \<Rightarrow> SplitsClientConfig
       \<Rightarrow> (TemplatesTransactions, ('t, 'rt, 'sz) call) io" where
  "TemplatesGasEstimates_constructor env cfg =
     TemplatesTransactions_constructor env GasEstimate cfg"

definition TemplatesCallData_constructor ::
    "('t, 'rt, 'sz) env \<Rightarrow> SplitsClientConfig
       \<Rightarrow> (TemplatesTransactions, ('t, 'rt, 'sz) call) io" where
  "TemplatesCallData_constructor env cfg =
     TemplatesTransactions_constructor env CallData cfg"

record TemplatesClient = TemplatesTransactions +
  eventTopics_createRecoup :: "string list"
  callData :: TemplatesTransactions
  estimateGas :: TemplatesTransactions

definition TemplatesClient_constructor ::
    "('t, 'rt, 'sz) env \<Rightarrow> SplitsClientConfig
       \<Rightarrow> (TemplatesClient, ('t, 'rt, 'sz) call) io" where
  "TemplatesClient_constructor env cfg =
     andThen (TemplatesTransactions_constructor env Transaction cfg) (\<lambda>this.
       if chainId cfg \<notin> set (TEMPLATES_CHAIN_IDS env)
       then throw (UnsupportedChainIdError (chainId cfg) (TEMPLATES_CHAIN_IDS env))
       else
         andThen (TemplatesCallData_constructor env cfg) (\<lambda>cd.
         andThen (TemplatesGasEstimates_constructor env cfg) (\<lambda>ge.
           ok (TemplatesTransactions.extend this
                 (TemplatesClient.fields [getEventTopic env ''CreateRecoup''] cd ge)))))"

text \<open>What \<^verbatim>\<open>new TemplatesClient(...)\<close> gives: the client, or the error thrown.\<close>

definition TemplatesClient_new ::
    "('t, 'rt, 'sz) env \<Rightarrow> SplitsClientConfig \<Rightarrow> error + TemplatesClient" where
  "TemplatesClient_new env cfg = fst (TemplatesClient_constructor env cfg)"

text \<open>
  \<^verbatim>\<open>submitCreateRecoupTransaction\<close>: the guard \<^verbatim>\<open>_isContractTransaction\<close> narrows the
  union, so the method hands on the transaction itself.
\<close>

definition submitCreateRecoupTransaction ::
    "('t, 'rt, 'sz) env \<Rightarrow> 'z TemplatesClient_scheme \<Rightarrow> 't CreateRecoupConfig
       \<Rightarrow> (ContractTransaction, ('t, 'rt, 'sz) call) io" where
  "submitCreateRecoupTransaction env c cfg =
     andThen (createRecoupTransaction env c (withDefaults cfg)) (\<lambda>createRecoupTx.
       case createRecoupTx of
         TxContractTransaction tx \<Rightarrow> ok tx
       | _ \<Rightarrow> throw (Error ''Invalid response''))"

record CreateRecoupResult =
  waterfallModuleId :: string
  event :: Event

definition createRecoup ::
    "('t, 'rt, 'sz) env \<Rightarrow> 'z TemplatesClient_scheme \<Rightarrow> 't CreateRecoupConfig
       \<Rightarrow> (CreateRecoupResult, ('t, 'rt, 'sz) call) io" where
  "createRecoup env c cfg =
     andThen (submitCreateRecoupTransaction env c (withDefaults cfg)) (\<lambda>createRecoupTx.
     andThen (getTransactionEvents createRecoupTx (eventTopics_createRecoup c)) (\<lambda>events.
       let ev = (if length events > 0 then Some (events ! 0) else None) in
       case ev of
         None \<Rightarrow> throw TransactionFailedError
       | Some e \<Rightarrow>
           (case args e of
              None \<Rightarrow> throw TransactionFailedError
            | Some a \<Rightarrow> ok \<lparr> waterfallModuleId = waterfallModule a, event = e \<rparr>)))"

definition estimateGas_createRecoup ::
    "('t, 'rt, 'sz) env \<Rightarrow> 'z TemplatesTransactions_scheme \<Rightarrow> 't CreateRecoupConfig
       \<Rightarrow> (TransactionFormat, ('t, 'rt, 'sz) call) io" where
  "estimateGas_createRecoup env c cfg =
     andThen (createRecoupTransaction env c (withDefaults cfg)) (\<lambda>gasEstimate.
       if \<not> isBigNumber gasEstimate then throw (Error ''Invalid response'')
       else ok gasEstimate)"

definition callData_createRecoup ::
    "('t, 'rt, 'sz) env \<Rightarrow> 'z TemplatesTransactions_scheme \<Rightarrow> 't CreateRecoupConfig
       \<Rightarrow> (TransactionFormat, ('t, 'rt, 'sz) call) io" where
  "callData_createRecoup env c cfg =
     andThen (createRecoupTransaction env c (withDefaults cfg)) (\<lambda>callData.
       if \<not> isCallData callData then throw (Error ''Invalid response'')
       else ok callData)"

section \<open>A mocked world\<close>

text \<open>
  Test doubles in the manner of the repository's tests: a provider and a signer, constant
  tables with the chains 1 and 5, validators that accept, a formatter that answers, and
  a contract whose \<^verbatim>\<open>createRecoup\<close> answers with a given result.
\<close>

definition mockProvider :: Provider where
  "mockProvider = Provider ''mockProvider''"

definition mockSigner :: Signer where
  "mockSigner = Signer ''mockSigner''"

definition mockEnv ::
    "(TransactionType \<Rightarrow> TransactionFormat) \<Rightarrow> (string, string list, nat list) env" where
  "mockEnv answer =
     \<lparr> TEMPLATES_CHAIN_IDS = [1, 5],
       getRecoupAddress = (\<lambda>chain. ''0xrecoup''),
       getEventTopic = (\<lambda>name. ''topic '' @ name),
       checksumValid = (\<lambda>a. True),
       validateRecoupTranches = (\<lambda>ts. Inr ()),
       getRecoupTranchesAndSizes = (\<lambda>chain tok ts p. Inr (ts, map length ts)),
       recoupContract_createRecoup = (\<lambda>tt addr tok rcp idx rt sz. Inr (answer tt)) \<rparr>"

definition mockConfig :: "Provider option \<Rightarrow> Signer option \<Rightarrow> SplitsClientConfig" where
  "mockConfig p s =
     \<lparr> chainId = 1, provider = p, ensProvider = None, signer = s, includeEnsNames = None \<rparr>"

definition mockClient :: "Provider option \<Rightarrow> Signer option \<Rightarrow> TemplatesClient" where
  "mockClient p s = projr (TemplatesClient_new (mockEnv (\<lambda>tt. TxBigNumber 0)) (mockConfig p s))"

definition mockToken :: address where
  "mockToken = ''0x6B175474E89094C44Da98b954EedeAC495271d0F''"

definition mockRecoup :: "string CreateRecoupConfig" where
  "mockRecoup =
     \<lparr> token = mockToken,
       tranches = [''0xrecipient1'', ''0xrecipient2''],
       nonWaterfallRecipientAddress = None,
       nonWaterfallRecipientTrancheIndex = None \<rparr>"

definition mockEvent :: "string \<Rightarrow> Result option \<Rightarrow> Event" where
  "mockEvent name a = \<lparr> blockNumber = 1111, topic = ''topic '' @ name, args = a \<rparr>"

definition mockTx :: "Event list \<Rightarrow> ContractTransaction" where
  "mockTx logs = \<lparr> txHash = ''0xtx'', wait = Inr logs \<rparr>"

text \<open>The contract's well-shaped answers: a mined transaction, a gas quantity, call data.\<close>

definition mockAnswer :: "Event list \<Rightarrow> TransactionType \<Rightarrow> TransactionFormat" where
  "mockAnswer logs tt =
     (case tt of
        Transaction \<Rightarrow> TxContractTransaction (mockTx logs)
      | GasEstimate \<Rightarrow> TxBigNumber 21000
      | CallData \<Rightarrow> TxCallData \<lparr> target = ''0xrecoup'', callValue = 0, data = ''0xdata'' \<rparr>)"

text \<open>Logs of a mined transaction: the first matching log decoded, and undecoded.\<close>

definition mockLogs :: "Event list" where
  "mockLogs =
     [mockEvent ''Transfer'' None,
      mockEvent ''CreateRecoup'' (Some \<lparr> waterfallModule = ''0xwaterfall'' \<rparr>),
      mockEvent ''CreateRecoup'' (Some \<lparr> waterfallModule = ''0xsecond'' \<rparr>)]"

definition mockUndecodedLogs :: "Event list" where
  "mockUndecodedLogs =
     [mockEvent ''Transfer'' None,
      mockEvent ''CreateRecoup'' None,
      mockEvent ''CreateRecoup'' (Some \<lparr> waterfallModule = ''0xsecond'' \<rparr>)]"

section \<open>The methods as equations\<close>

lemma withDefaults_simps:
  "token (withDefaults cfg) = token cfg"
  "tranches (withDefaults cfg) = tranches cfg"
  "orAddressZero (nonWaterfallRecipientAddress (withDefaults cfg)) = orAddressZero (nonWaterfallRecipientAddress cfg)"
  "nonWaterfallRecipientTrancheIndex (withDefaults cfg) = nonWaterfallRecipientTrancheIndex cfg"
  by (simp_all add: withDefaults_def orAddressZero_def)

lemma createRecoupValidation_withDefaults:
  "createRecoupValidation env (withDefaults cfg) = createRecoupValidation env cfg"
  by (simp add: createRecoupValidation_def withDefaults_simps Let_def split: sum.splits)

lemma createRecoupTransaction_eq:
  "createRecoupTransaction env c cfg =
     (case createRecoupValidation env cfg of
        Inl e \<Rightarrow> (Inl e, [])
      | Inr u \<Rightarrow>
        (case this_provider c of
           None \<Rightarrow> (Inl MissingProviderError, [])
         | Some p \<Rightarrow>
             if this_shouldRequireSigner c \<and> this_signer c = None then (Inl MissingSignerError, [])
             else
               (case getRecoupTranchesAndSizes env (this_chainId c) (token cfg) (tranches cfg) p of
                  Inl e \<Rightarrow> (Inl e, [GetRecoupTranchesAndSizes (this_chainId c) (token cfg) (tranches cfg) p])
                | Inr rs \<Rightarrow>
                    (recoupContract_createRecoup env (fst (this_recoupContract c))
                       (snd (this_recoupContract c)) (token cfg)
                       (orAddressZero (nonWaterfallRecipientAddress cfg))
                       (nonWaterfallRecipientTrancheIndex cfg) (fst rs) (snd rs),
                     [GetRecoupTranchesAndSizes (this_chainId c) (token cfg) (tranches cfg) p,
                      ContractCreateRecoup (fst (this_recoupContract c))
                       (snd (this_recoupContract c)) (token cfg)
                       (orAddressZero (nonWaterfallRecipientAddress cfg))
                       (nonWaterfallRecipientTrancheIndex cfg) (fst rs) (snd rs)]))))"
  by (simp add: createRecoupTransaction_def createRecoupValidation_def andThen_def sync_def
      ok_def throw_def await_def requireProvider_def requireSigner_def Let_def
      split: sum.splits option.splits prod.splits)

lemma createRecoupTransaction_withDefaults:
  "createRecoupTransaction env c (withDefaults cfg) = createRecoupTransaction env c cfg"
  by (simp add: createRecoupTransaction_def withDefaults_simps Let_def)

lemma submit_eq:
  "submitCreateRecoupTransaction env c cfg =
     (case createRecoupTransaction env c cfg of
        (Inl e, t) \<Rightarrow> (Inl e, t)
      | (Inr r, t) \<Rightarrow>
          (case r of
             TxContractTransaction tx \<Rightarrow> (Inr tx, t)
           | _ \<Rightarrow> (Inl (Error ''Invalid response''), t)))"
  by (simp add: submitCreateRecoupTransaction_def createRecoupTransaction_withDefaults
      andThen_def ok_def throw_def split: prod.splits sum.splits TransactionFormat.splits)

lemma submit_withDefaults:
  "submitCreateRecoupTransaction env c (withDefaults cfg) = submitCreateRecoupTransaction env c cfg"
  by (simp add: submit_eq createRecoupTransaction_withDefaults)

lemma estimateGas_eq:
  "estimateGas_createRecoup env c cfg =
     (case createRecoupTransaction env c cfg of
        (Inl e, t) \<Rightarrow> (Inl e, t)
      | (Inr r, t) \<Rightarrow> if isBigNumber r then (Inr r, t) else (Inl (Error ''Invalid response''), t))"
  by (simp add: estimateGas_createRecoup_def createRecoupTransaction_withDefaults
      andThen_def ok_def throw_def split: prod.splits sum.splits)

lemma callData_eq:
  "callData_createRecoup env c cfg =
     (case createRecoupTransaction env c cfg of
        (Inl e, t) \<Rightarrow> (Inl e, t)
      | (Inr r, t) \<Rightarrow> if isCallData r then (Inr r, t) else (Inl (Error ''Invalid response''), t))"
  by (simp add: callData_createRecoup_def createRecoupTransaction_withDefaults
      andThen_def ok_def throw_def split: prod.splits sum.splits)

lemma createRecoup_eq:
  "createRecoup env c cfg =
     (case submitCreateRecoupTransaction env c cfg of
        (Inl e, t) \<Rightarrow> (Inl e, t)
      | (Inr tx, t) \<Rightarrow>
          (case wait tx of
             Inl e \<Rightarrow> (Inl e, t @ [TransactionWait (txHash tx)])
           | Inr logs \<Rightarrow>
               (case filter (\<lambda>e. topic e \<in> set (eventTopics_createRecoup c)) logs of
                  [] \<Rightarrow> (Inl TransactionFailedError, t @ [TransactionWait (txHash tx)])
                | e # es \<Rightarrow>
                    (case args e of
                       None \<Rightarrow> (Inl TransactionFailedError, t @ [TransactionWait (txHash tx)])
                     | Some a \<Rightarrow>
                         (Inr \<lparr> waterfallModuleId = waterfallModule a, event = e \<rparr>,
                          t @ [TransactionWait (txHash tx)])))))"
  by (auto simp add: createRecoup_def submit_withDefaults getTransactionEvents_def
      andThen_def ok_def throw_def await_def Let_def
      split: prod.splits sum.splits list.splits option.splits)

lemma TemplatesTransactions_constructor_eq:
  "TemplatesTransactions_constructor env tt cfg =
     (if includeEnsNames cfg = Some True \<and> provider cfg = None \<and> ensProvider cfg = None
      then (Inl InvalidConfigError, [])
      else (Inr \<lparr> this_transactionType = tt,
                  this_chainId = chainId cfg,
                  this_provider = provider cfg,
                  this_ensProvider = ensProvider cfg,
                  this_signer = signer cfg,
                  this_includeEnsNames = (includeEnsNames cfg = Some True),
                  this_shouldRequireSigner = (tt = Transaction),
                  this_recoupContract = (tt, getRecoupAddress env (chainId cfg)) \<rparr>, []))"
  by (auto simp add: TemplatesTransactions_constructor_def BaseTransactions_new_def
      getRecoupContract_def andThen_def sync_def ok_def
      BaseTransactions.defs TemplatesTransactions.defs Let_def split: option.splits)

lemma TemplatesClient_constructor_eq:
  "TemplatesClient_constructor env cfg =
     (if includeEnsNames cfg = Some True \<and> provider cfg = None \<and> ensProvider cfg = None
      then (Inl InvalidConfigError, [])
      else if chainId cfg \<notin> set (TEMPLATES_CHAIN_IDS env)
      then (Inl (UnsupportedChainIdError (chainId cfg) (TEMPLATES_CHAIN_IDS env)), [])
      else (Inr \<lparr> this_transactionType = Transaction,
                  this_chainId = chainId cfg,
                  this_provider = provider cfg,
                  this_ensProvider = ensProvider cfg,
                  this_signer = signer cfg,
                  this_includeEnsNames = (includeEnsNames cfg = Some True),
                  this_shouldRequireSigner = True,
                  this_recoupContract = (Transaction, getRecoupAddress env (chainId cfg)),
                  eventTopics_createRecoup = [getEventTopic env ''CreateRecoup''],
                  callData = projr (fst (TemplatesTransactions_constructor env CallData cfg)),
                  estimateGas =
                    projr (fst (TemplatesTransactions_constructor env GasEstimate cfg)) \<rparr>,
            []))"
  by (simp add: TemplatesClient_constructor_def TemplatesCallData_constructor_def
      TemplatesGasEstimates_constructor_def TemplatesTransactions_constructor_eq
      andThen_def ok_def throw_def TemplatesTransactions.defs TemplatesClient.defs)

lemma TemplatesClient_new_eq:
  "TemplatesClient_new env cfg =
     (if includeEnsNames cfg = Some True \<and> provider cfg = None \<and> ensProvider cfg = None
      then Inl InvalidConfigError
      else if chainId cfg \<notin> set (TEMPLATES_CHAIN_IDS env)
      then Inl (UnsupportedChainIdError (chainId cfg) (TEMPLATES_CHAIN_IDS env))
      else Inr \<lparr> this_transactionType = Transaction,
                 this_chainId = chainId cfg,
                 this_provider = provider cfg,
                 this_ensProvider = ensProvider cfg,
                 this_signer = signer cfg,
                 this_includeEnsNames = (includeEnsNames cfg = Some True),
                 this_shouldRequireSigner = True,
                 this_recoupContract = (Transaction, getRecoupAddress env (chainId cfg)),
                 eventTopics_createRecoup = [getEventTopic env ''CreateRecoup''],
                 callData = projr (fst (TemplatesTransactions_constructor env CallData cfg)),
                 estimateGas =
                   projr (fst (TemplatesTransactions_constructor env GasEstimate cfg)) \<rparr>)"
  by (simp add: TemplatesClient_new_def TemplatesClient_constructor_eq)

lemma TemplatesClient_new_fields:
  assumes "TemplatesClient_new env cfg = Inr c"
  shows "this_provider c = provider cfg \<and> this_signer c = signer cfg
       \<and> this_chainId c = chainId cfg \<and> this_shouldRequireSigner c
       \<and> this_transactionType c = Transaction
       \<and> this_recoupContract c = (Transaction, getRecoupAddress env (chainId cfg))
       \<and> eventTopics_createRecoup c = [getEventTopic env ''CreateRecoup'']"
    and "this_provider (estimateGas c) = provider cfg \<and> this_signer (estimateGas c) = signer cfg
       \<and> this_chainId (estimateGas c) = chainId cfg \<and> \<not> this_shouldRequireSigner (estimateGas c)
       \<and> this_transactionType (estimateGas c) = GasEstimate
       \<and> this_recoupContract (estimateGas c) = (GasEstimate, getRecoupAddress env (chainId cfg))"
    and "this_provider (callData c) = provider cfg \<and> this_signer (callData c) = signer cfg
       \<and> this_chainId (callData c) = chainId cfg \<and> \<not> this_shouldRequireSigner (callData c)
       \<and> this_transactionType (callData c) = CallData
       \<and> this_recoupContract (callData c) = (CallData, getRecoupAddress env (chainId cfg))"
  using assms
  by (auto simp add: TemplatesClient_new_eq TemplatesTransactions_constructor_eq split: if_splits)

lemma mockClient_new:
  "TemplatesClient_new (mockEnv r) (mockConfig p s) = Inr (mockClient p s)"
  by (simp add: mockClient_def TemplatesClient_new_eq TemplatesTransactions_constructor_eq
      mockEnv_def mockConfig_def)

lemma mockRecoup_valid: "createRecoupValidation (mockEnv r) mockRecoup = Inr ()"
  by (simp add: createRecoupValidation_def validateAddress_def is20Bytes_def isHexDigit_def
      validateRecoupNonWaterfallRecipient_def orAddressZero_def AddressZero_def
      mockEnv_def mockRecoup_def mockToken_def)

lemma mock_single_field_valid:
  "validateAddress (mockEnv f) mockToken = Inr ()"
  "validateAddress (mockEnv f) AddressZero = Inr ()"
  "validateRecoupTranches (mockEnv f) ts = Inr ()"
  by (simp_all add: validateAddress_def is20Bytes_def isHexDigit_def AddressZero_def
      mockEnv_def mockToken_def)


lemma mock_fields:
  "this_provider (mockClient p s) = p"
  "this_signer (mockClient p s) = s"
  "this_chainId (mockClient p s) = 1"
  "this_shouldRequireSigner (mockClient p s)"
  "this_recoupContract (mockClient p s) = (Transaction, ''0xrecoup'')"
  "eventTopics_createRecoup (mockClient p s) = [''topic CreateRecoup'']"
  "this_provider (estimateGas (mockClient p s)) = p"
  "this_chainId (estimateGas (mockClient p s)) = 1"
  "\<not> this_shouldRequireSigner (estimateGas (mockClient p s))"
  "this_recoupContract (estimateGas (mockClient p s)) = (GasEstimate, ''0xrecoup'')"
  "this_provider (callData (mockClient p s)) = p"
  "this_chainId (callData (mockClient p s)) = 1"
  "\<not> this_shouldRequireSigner (callData (mockClient p s))"
  "this_recoupContract (callData (mockClient p s)) = (CallData, ''0xrecoup'')"
  using TemplatesClient_new_fields [OF mockClient_new [of "\<lambda>tt. TxBigNumber 0" p s]]
  by (simp_all add: mockConfig_def mockEnv_def)

lemma mock_createRecoupTransaction:
  "createRecoupTransaction (mockEnv f) (mockClient (Some mockProvider) (Some mockSigner)) mockRecoup
     = (Inr (f Transaction),
        [GetRecoupTranchesAndSizes 1 mockToken (tranches mockRecoup) mockProvider,
         ContractCreateRecoup Transaction ''0xrecoup'' mockToken AddressZero None
           (tranches mockRecoup) (map length (tranches mockRecoup))])"
  by (simp add: createRecoupTransaction_eq mockRecoup_valid mock_fields)
     (simp add: mock_fields mockEnv_def mockRecoup_def orAddressZero_def)

lemma mock_submit:
  "submitCreateRecoupTransaction (mockEnv (mockAnswer logs))
       (mockClient (Some mockProvider) (Some mockSigner)) mockRecoup
     = (Inr (mockTx logs),
        [GetRecoupTranchesAndSizes 1 mockToken (tranches mockRecoup) mockProvider,
         ContractCreateRecoup Transaction ''0xrecoup'' mockToken AddressZero None
           (tranches mockRecoup) (map length (tranches mockRecoup))])"
  by (simp add: submit_eq mock_createRecoupTransaction mockAnswer_def)

lemma mock_createRecoupTransaction_estimateGas:
  "createRecoupTransaction (mockEnv f) (estimateGas (mockClient (Some mockProvider) s)) mockRecoup
     = (Inr (f GasEstimate),
        [GetRecoupTranchesAndSizes 1 mockToken (tranches mockRecoup) mockProvider,
         ContractCreateRecoup GasEstimate ''0xrecoup'' mockToken AddressZero None
           (tranches mockRecoup) (map length (tranches mockRecoup))])"
  by (simp add: createRecoupTransaction_eq mockRecoup_valid mock_fields)
     (simp add: mock_fields mockEnv_def mockRecoup_def orAddressZero_def)

lemma mock_createRecoupTransaction_callData:
  "createRecoupTransaction (mockEnv f) (callData (mockClient (Some mockProvider) s)) mockRecoup
     = (Inr (f CallData),
        [GetRecoupTranchesAndSizes 1 mockToken (tranches mockRecoup) mockProvider,
         ContractCreateRecoup CallData ''0xrecoup'' mockToken AddressZero None
           (tranches mockRecoup) (map length (tranches mockRecoup))])"
  by (simp add: createRecoupTransaction_eq mockRecoup_valid mock_fields)
     (simp add: mock_fields mockEnv_def mockRecoup_def orAddressZero_def)

section \<open>The cross-field rule of the non-waterfall recipient\<close>

text \<open>
  C8. For every tranche index and recipient address passed to \<^verbatim>\<open>createRecoup\<close>: with the
  zero address any defined index fails validation, with a non-zero address an
  undefined index fails validation, both with \<^verbatim>\<open>InvalidArgumentError\<close>; the zero address
  with an undefined index, and a non-zero address with an index of an existing tranche,
  pass. Where the three single-field validations pass and the rule fails,
  \<^verbatim>\<open>_createRecoupTransaction\<close> throws the rule's error before any call is made.
\<close>

theorem validateRecoupNonWaterfallRecipient_pairs:
  "(recipient = AddressZero \<and> index \<noteq> None \<longrightarrow>
      validateRecoupNonWaterfallRecipient n recipient index = Inl InvalidArgumentError)
   \<and> (recipient \<noteq> AddressZero \<and> index = None \<longrightarrow>
      validateRecoupNonWaterfallRecipient n recipient index = Inl InvalidArgumentError)
   \<and> (recipient = AddressZero \<and> index = None \<longrightarrow>
      validateRecoupNonWaterfallRecipient n recipient index = Inr ())
   \<and> (recipient \<noteq> AddressZero \<and> index = Some i \<and> 0 \<le> i \<and> i < int n \<longrightarrow>
      validateRecoupNonWaterfallRecipient n recipient index = Inr ())
   \<and> (validateAddress env (token cfg) = Inr ()
      \<and> validateAddress env (orAddressZero (nonWaterfallRecipientAddress cfg)) = Inr ()
      \<and> validateRecoupTranches env (tranches cfg) = Inr ()
      \<and> validateRecoupNonWaterfallRecipient (length (tranches cfg))
            (orAddressZero (nonWaterfallRecipientAddress cfg))
            (nonWaterfallRecipientTrancheIndex cfg) = Inl InvalidArgumentError \<longrightarrow>
      createRecoupTransaction env c cfg = (Inl InvalidArgumentError, []))"
  by (auto simp add: validateRecoupNonWaterfallRecipient_def createRecoupTransaction_eq
      createRecoupValidation_def)


theorem validateRecoupNonWaterfallRecipient_pairs_witness:
  "validateRecoupNonWaterfallRecipient 2 AddressZero (Some 0) = Inl InvalidArgumentError
   \<and> validateRecoupNonWaterfallRecipient 2 mockToken None = Inl InvalidArgumentError
   \<and> validateRecoupNonWaterfallRecipient 2 AddressZero None = Inr ()
   \<and> validateRecoupNonWaterfallRecipient 2 mockToken (Some 1) = Inr ()
   \<and> mockToken \<noteq> AddressZero
   \<and> createRecoupTransaction (mockEnv (mockAnswer [])) (mockClient (Some mockProvider) (Some mockSigner))
        (mockRecoup \<lparr> nonWaterfallRecipientTrancheIndex := Some 0 \<rparr>)
      = (Inl InvalidArgumentError, [])"
proof -
  have ne: "mockToken \<noteq> AddressZero"
    by (simp add: mockToken_def AddressZero_def)
  have a: "validateRecoupNonWaterfallRecipient 2 AddressZero (Some 0) = Inl InvalidArgumentError"
    using validateRecoupNonWaterfallRecipient_pairs
      [of AddressZero "Some 0" 2 0 "mockEnv (mockAnswer [])" mockRecoup
          "mockClient (Some mockProvider) (Some mockSigner)"]
    by simp
  have b: "validateRecoupNonWaterfallRecipient 2 mockToken None = Inl InvalidArgumentError"
    using ne validateRecoupNonWaterfallRecipient_pairs
      [of mockToken None 2 0 "mockEnv (mockAnswer [])" mockRecoup
          "mockClient (Some mockProvider) (Some mockSigner)"]
    by simp
  have c: "validateRecoupNonWaterfallRecipient 2 AddressZero None = Inr ()"
    using validateRecoupNonWaterfallRecipient_pairs
      [of AddressZero None 2 0 "mockEnv (mockAnswer [])" mockRecoup
          "mockClient (Some mockProvider) (Some mockSigner)"]
    by simp
  have d: "validateRecoupNonWaterfallRecipient 2 mockToken (Some 1) = Inr ()"
    using ne validateRecoupNonWaterfallRecipient_pairs
      [of mockToken "Some 1" 2 1 "mockEnv (mockAnswer [])" mockRecoup
          "mockClient (Some mockProvider) (Some mockSigner)"]
    by simp
  have e: "createRecoupTransaction (mockEnv (mockAnswer []))
        (mockClient (Some mockProvider) (Some mockSigner))
        (mockRecoup \<lparr> nonWaterfallRecipientTrancheIndex := Some 0 \<rparr>)
      = (Inl InvalidArgumentError, [])"
    using validateRecoupNonWaterfallRecipient_pairs
      [of AddressZero "Some 0" 2 0 "mockEnv (mockAnswer [])"
          "mockRecoup \<lparr> nonWaterfallRecipientTrancheIndex := Some 0 \<rparr>"
          "mockClient (Some mockProvider) (Some mockSigner)"]
    by (simp add: mock_single_field_valid mockRecoup_def orAddressZero_def
        validateRecoupNonWaterfallRecipient_def)
  from a b c d e ne show ?thesis by simp
qed

section \<open>Validation comes before the provider check\<close>

text \<open>
  C1. \<^verbatim>\<open>_createRecoupTransaction\<close> runs its four validations first and
  \<^verbatim>\<open>_requireProvider\<close> after them. So on a client constructed without a provider every
  public method (\<^verbatim>\<open>createRecoup\<close>, \<^verbatim>\<open>submitCreateRecoupTransaction\<close>, the gas estimate
  and the call data) fails with \<^verbatim>\<open>MissingProviderError\<close> when its arguments pass
  validation, and with the error of the first failing validation otherwise; in both
  cases no call to a collaborator is made.
\<close>

theorem missing_provider_after_validation:
  assumes new: "TemplatesClient_new env cfg = Inr c"
      and noProvider: "provider cfg = None"
  shows "(case createRecoupValidation env input of
            Inl e \<Rightarrow>
              createRecoup env c input = (Inl e, [])
              \<and> submitCreateRecoupTransaction env c input = (Inl e, [])
              \<and> estimateGas_createRecoup env (estimateGas c) input = (Inl e, [])
              \<and> callData_createRecoup env (callData c) input = (Inl e, [])
          | Inr u \<Rightarrow>
              createRecoup env c input = (Inl MissingProviderError, [])
              \<and> submitCreateRecoupTransaction env c input = (Inl MissingProviderError, [])
              \<and> estimateGas_createRecoup env (estimateGas c) input = (Inl MissingProviderError, [])
              \<and> callData_createRecoup env (callData c) input = (Inl MissingProviderError, []))"
proof -
  have p: "this_provider c = None" "this_provider (estimateGas c) = None"
      "this_provider (callData c) = None"
    using TemplatesClient_new_fields [OF new] noProvider by simp_all
  show ?thesis
    by (simp add: createRecoup_eq submit_eq estimateGas_eq callData_eq
        createRecoupTransaction_eq p split: sum.splits)
qed

theorem missing_provider_after_validation_witness:
  "TemplatesClient_new (mockEnv (mockAnswer [])) (mockConfig None (Some mockSigner))
     = Inr (mockClient None (Some mockSigner))
   \<and> provider (mockConfig None (Some mockSigner)) = None
   \<and> createRecoupValidation (mockEnv (mockAnswer [])) mockRecoup = Inr ()
   \<and> createRecoup (mockEnv (mockAnswer [])) (mockClient None (Some mockSigner)) mockRecoup
     = (Inl MissingProviderError, [])
   \<and> estimateGas_createRecoup (mockEnv (mockAnswer []))
       (estimateGas (mockClient None (Some mockSigner))) mockRecoup
     = (Inl MissingProviderError, [])
   \<and> callData_createRecoup (mockEnv (mockAnswer []))
       (callData (mockClient None (Some mockSigner))) mockRecoup
     = (Inl MissingProviderError, [])"
proof -
  have np: "provider (mockConfig None (Some mockSigner)) = None"
    by (simp add: mockConfig_def)
  show ?thesis
    using missing_provider_after_validation [OF mockClient_new np, of "mockAnswer []" mockRecoup]
    by (simp add: mockClient_new np mockRecoup_valid)
qed

text \<open>
  Without the condition on validation the statement fails: with no provider and an
  ill-formed token address, the validation error surfaces, not \<^verbatim>\<open>MissingProviderError\<close>.
\<close>

theorem validation_error_precedes_missing_provider:
  "TemplatesClient_new (mockEnv (mockAnswer [])) (mockConfig None None) = Inr (mockClient None None)
   \<and> this_provider (mockClient None None) = None
   \<and> createRecoup (mockEnv (mockAnswer [])) (mockClient None None) (mockRecoup \<lparr> token := [] \<rparr>)
     = (Inl (ValidationError ''address must be 20 bytes / checksum-valid''), [])
   \<and> fst (createRecoup (mockEnv (mockAnswer [])) (mockClient None None)
            (mockRecoup \<lparr> token := [] \<rparr>))
     \<noteq> Inl MissingProviderError"
proof -
  have v: "createRecoupValidation (mockEnv (mockAnswer [])) (mockRecoup \<lparr> token := [] \<rparr>)
      = Inl (ValidationError ''address must be 20 bytes / checksum-valid'')"
    by (simp add: createRecoupValidation_def validateAddress_def is20Bytes_def)
  have p: "this_provider (mockClient None None) = None"
    using TemplatesClient_new_fields(1) [OF mockClient_new [of "mockAnswer []" None None]]
    by (simp add: mockConfig_def)
  show ?thesis
    by (simp add: mockClient_new p createRecoup_eq submit_eq createRecoupTransaction_eq v)
qed

section \<open>The chain check of the constructor\<close>

text \<open>
  C2. The constructor of \<^verbatim>\<open>TemplatesClient\<close> calls the base constructor
  first, then checks the chain. For every configuration the base constructor accepts
  (it rejects ENS names requested with no provider): a chain outside
  \<^verbatim>\<open>TEMPLATES_CHAIN_IDS\<close> fails with \<^verbatim>\<open>UnsupportedChainIdError\<close> carrying the chain and the
  supported list, and a chain inside it gives a client bound to the submitting mode with
  its gas-estimate and call-data variants. In both cases the constructor has made no
  call when it throws or returns: the failure comes before any call to the transport.
\<close>

theorem TemplatesClient_new_chain_check:
  assumes "\<not> (includeEnsNames cfg = Some True \<and> provider cfg = None \<and> ensProvider cfg = None)"
  shows "(if chainId cfg \<in> set (TEMPLATES_CHAIN_IDS env)
          then \<exists>c. TemplatesClient_new env cfg = Inr c
                 \<and> TemplatesClient_constructor env cfg = (Inr c, [])
                 \<and> this_chainId c = chainId cfg
                 \<and> this_transactionType c = Transaction
                 \<and> this_transactionType (estimateGas c) = GasEstimate
                 \<and> this_transactionType (callData c) = CallData
          else TemplatesClient_new env cfg
                 = Inl (UnsupportedChainIdError (chainId cfg) (TEMPLATES_CHAIN_IDS env))
               \<and> TemplatesClient_constructor env cfg
                 = (Inl (UnsupportedChainIdError (chainId cfg) (TEMPLATES_CHAIN_IDS env)), []))"
  using assms
  by (auto simp add: TemplatesClient_new_eq TemplatesClient_constructor_eq
      TemplatesTransactions_constructor_eq)

theorem TemplatesClient_new_chain_check_witness:
  "includeEnsNames (mockConfig None None) = None
   \<and> TemplatesClient_new (mockEnv (mockAnswer [])) (mockConfig None None)
     = Inr (mockClient None None)
   \<and> TemplatesClient_constructor (mockEnv (mockAnswer [])) (mockConfig None None)
     = (Inr (mockClient None None), [])
   \<and> this_chainId (mockClient None None) = 1
   \<and> TemplatesClient_new (mockEnv (mockAnswer [])) ((mockConfig None None) \<lparr> chainId := 51 \<rparr>)
     = Inl (UnsupportedChainIdError 51 [1, 5])
   \<and> TemplatesClient_constructor (mockEnv (mockAnswer []))
       ((mockConfig None None) \<lparr> chainId := 51 \<rparr>)
     = (Inl (UnsupportedChainIdError 51 [1, 5]), [])"
proof -
  have a: "TemplatesClient_new (mockEnv (mockAnswer [])) ((mockConfig None None) \<lparr> chainId := 51 \<rparr>)
     = Inl (UnsupportedChainIdError 51 [1, 5])
   \<and> TemplatesClient_constructor (mockEnv (mockAnswer []))
       ((mockConfig None None) \<lparr> chainId := 51 \<rparr>)
     = (Inl (UnsupportedChainIdError 51 [1, 5]), [])"
    using TemplatesClient_new_chain_check
      [of "(mockConfig None None) \<lparr> chainId := 51 \<rparr>" "mockEnv (mockAnswer [])"]
    by (simp add: mockConfig_def mockEnv_def)
  have mem: "chainId (mockConfig None None) \<in> set (TEMPLATES_CHAIN_IDS (mockEnv (mockAnswer [])))"
    by (simp add: mockConfig_def mockEnv_def)
  have cfg: "\<not> (includeEnsNames (mockConfig None None) = Some True
      \<and> provider (mockConfig None None) = None \<and> ensProvider (mockConfig None None) = None)"
    by (simp add: mockConfig_def)
  from TemplatesClient_new_chain_check [OF cfg, of "mockEnv (mockAnswer [])"] mem
  obtain c where c: "TemplatesClient_new (mockEnv (mockAnswer [])) (mockConfig None None) = Inr c"
      "TemplatesClient_constructor (mockEnv (mockAnswer [])) (mockConfig None None) = (Inr c, [])"
      "this_chainId c = chainId (mockConfig None None)"
    by auto
  from c(1) have eq: "c = mockClient None None"
    by (simp add: mockClient_new)
  with c(3) have b: "this_chainId (mockClient None None) = 1"
    by (simp add: mockConfig_def)
  from eq c(2)
  have d: "TemplatesClient_constructor (mockEnv (mockAnswer [])) (mockConfig None None)
      = (Inr (mockClient None None), [])"
    by simp
  from a b d show ?thesis by (simp add: mockClient_new) (simp add: mockConfig_def)
qed

text \<open>
  Without the condition on the configuration the statement fails, as in the
  repository's test "Including ens names with no provider fails": on the supported
  chain 1 construction does not succeed, and on the unsupported chain 51 the error is
  not the chain's.
\<close>

theorem TemplatesClient_new_invalid_config_first:
  "1 \<in> set (TEMPLATES_CHAIN_IDS (mockEnv (mockAnswer [])))
   \<and> TemplatesClient_new (mockEnv (mockAnswer []))
       \<lparr> chainId = 1, provider = None, ensProvider = None, signer = None,
         includeEnsNames = Some True \<rparr>
     = Inl InvalidConfigError
   \<and> 51 \<notin> set (TEMPLATES_CHAIN_IDS (mockEnv (mockAnswer [])))
   \<and> TemplatesClient_new (mockEnv (mockAnswer []))
       \<lparr> chainId = 51, provider = None, ensProvider = None, signer = None,
         includeEnsNames = Some True \<rparr>
     = Inl InvalidConfigError"
  by (simp add: TemplatesClient_new_eq mockEnv_def)

section \<open>Events of a mined transaction\<close>

text \<open>
  C3. When the transaction submitted by \<^verbatim>\<open>createRecoup\<close> is mined and none of its logs
  has the \<^verbatim>\<open>CreateRecoup\<close> topic, \<^verbatim>\<open>createRecoup\<close> fails with
  \<^verbatim>\<open>TransactionFailedError\<close>; it returns no partial result.
\<close>

theorem createRecoup_no_matching_log_fails:
  assumes submitted: "submitCreateRecoupTransaction env c input = (Inr tx, calls)"
      and mined: "wait tx = Inr logs"
      and noMatch: "\<forall>e \<in> set logs. topic e \<notin> set (eventTopics_createRecoup c)"
  shows "createRecoup env c input
           = (Inl TransactionFailedError, calls @ [TransactionWait (txHash tx)])"
proof -
  from noMatch have "filter (\<lambda>e. topic e \<in> set (eventTopics_createRecoup c)) logs = []"
    by (simp add: filter_empty_conv)
  with submitted mined show ?thesis
    by (simp add: createRecoup_eq)
qed

theorem createRecoup_no_matching_log_fails_witness:
  "submitCreateRecoupTransaction (mockEnv (mockAnswer [mockEvent ''Transfer'' None]))
       (mockClient (Some mockProvider) (Some mockSigner)) mockRecoup
     = (Inr (mockTx [mockEvent ''Transfer'' None]),
        [GetRecoupTranchesAndSizes 1 mockToken (tranches mockRecoup) mockProvider,
         ContractCreateRecoup Transaction ''0xrecoup'' mockToken AddressZero None
           (tranches mockRecoup) (map length (tranches mockRecoup))])
   \<and> wait (mockTx [mockEvent ''Transfer'' None]) = Inr [mockEvent ''Transfer'' None]
   \<and> topic (mockEvent ''Transfer'' None)
       \<notin> set (eventTopics_createRecoup (mockClient (Some mockProvider) (Some mockSigner)))
   \<and> createRecoup (mockEnv (mockAnswer [mockEvent ''Transfer'' None]))
       (mockClient (Some mockProvider) (Some mockSigner)) mockRecoup
     = (Inl TransactionFailedError,
        [GetRecoupTranchesAndSizes 1 mockToken (tranches mockRecoup) mockProvider,
         ContractCreateRecoup Transaction ''0xrecoup'' mockToken AddressZero None
           (tranches mockRecoup) (map length (tranches mockRecoup)),
         TransactionWait ''0xtx''])"
proof -
  have w: "wait (mockTx [mockEvent ''Transfer'' None]) = Inr [mockEvent ''Transfer'' None]"
    by (simp add: mockTx_def)
  have n: "\<forall>e \<in> set [mockEvent ''Transfer'' None].
      topic e \<notin> set (eventTopics_createRecoup (mockClient (Some mockProvider) (Some mockSigner)))"
    by (simp add: mock_fields mockEvent_def)
  show ?thesis
    using createRecoup_no_matching_log_fails [OF mock_submit w n] n
    by (simp add: mock_submit w) (simp add: mockTx_def)
qed

text \<open>
  C7. When the logs of the mined transaction hold a log with the expected topic, the
  extraction returns the first such log at the head, whatever logs come before it, and
  \<^verbatim>\<open>createRecoup\<close> returns that log as the event and its decoded
  \<^verbatim>\<open>args.waterfallModule\<close> as \<^verbatim>\<open>waterfallModuleId\<close>.
\<close>

theorem createRecoup_first_matching_log:
  assumes submitted: "submitCreateRecoupTransaction env c input = (Inr tx, calls)"
      and mined: "wait tx = Inr (before @ e # after)"
      and noMatch: "\<forall>x \<in> set before. topic x \<notin> set (eventTopics_createRecoup c)"
      and match: "topic e \<in> set (eventTopics_createRecoup c)"
  shows "fst (getTransactionEvents tx (eventTopics_createRecoup c))
           = Inr (e # filter (\<lambda>x. topic x \<in> set (eventTopics_createRecoup c)) after)
         \<and> (\<forall>a. args e = Some a \<longrightarrow>
               createRecoup env c input
                 = (Inr \<lparr> waterfallModuleId = waterfallModule a, event = e \<rparr>,
                    calls @ [TransactionWait (txHash tx)]))"
proof -
  from noMatch have "filter (\<lambda>x. topic x \<in> set (eventTopics_createRecoup c)) before = []"
    by (simp add: filter_empty_conv)
  with match have f: "filter (\<lambda>x. topic x \<in> set (eventTopics_createRecoup c)) (before @ e # after)
      = e # filter (\<lambda>x. topic x \<in> set (eventTopics_createRecoup c)) after"
    by simp
  show ?thesis
    using submitted mined f
    by (simp add: createRecoup_eq getTransactionEvents_def await_def)
qed

theorem createRecoup_first_matching_log_witness:
  "submitCreateRecoupTransaction (mockEnv (mockAnswer mockLogs))
       (mockClient (Some mockProvider) (Some mockSigner)) mockRecoup
     = (Inr (mockTx mockLogs),
        [GetRecoupTranchesAndSizes 1 mockToken (tranches mockRecoup) mockProvider,
         ContractCreateRecoup Transaction ''0xrecoup'' mockToken AddressZero None
           (tranches mockRecoup) (map length (tranches mockRecoup))])
   \<and> wait (mockTx mockLogs) = Inr mockLogs
   \<and> topic (mockEvent ''Transfer'' None)
       \<notin> set (eventTopics_createRecoup (mockClient (Some mockProvider) (Some mockSigner)))
   \<and> topic (mockEvent ''CreateRecoup'' (Some \<lparr> waterfallModule = ''0xwaterfall'' \<rparr>))
       \<in> set (eventTopics_createRecoup (mockClient (Some mockProvider) (Some mockSigner)))
   \<and> createRecoup (mockEnv (mockAnswer mockLogs))
       (mockClient (Some mockProvider) (Some mockSigner)) mockRecoup
     = (Inr \<lparr> waterfallModuleId = ''0xwaterfall'', event = mockEvent ''CreateRecoup''
                (Some \<lparr> waterfallModule = ''0xwaterfall'' \<rparr>) \<rparr>,
        [GetRecoupTranchesAndSizes 1 mockToken (tranches mockRecoup) mockProvider,
         ContractCreateRecoup Transaction ''0xrecoup'' mockToken AddressZero None
           (tranches mockRecoup) (map length (tranches mockRecoup)),
         TransactionWait ''0xtx''])"
proof -
  let ?e = "mockEvent ''CreateRecoup'' (Some \<lparr> waterfallModule = ''0xwaterfall'' \<rparr>)"
  have w: "wait (mockTx mockLogs)
      = Inr ([mockEvent ''Transfer'' None] @ ?e
             # [mockEvent ''CreateRecoup'' (Some \<lparr> waterfallModule = ''0xsecond'' \<rparr>)])"
    by (simp add: mockTx_def mockLogs_def)
  have n: "\<forall>x \<in> set [mockEvent ''Transfer'' None].
      topic x \<notin> set (eventTopics_createRecoup (mockClient (Some mockProvider) (Some mockSigner)))"
    by (simp add: mock_fields mockEvent_def)
  have m: "topic ?e
      \<in> set (eventTopics_createRecoup (mockClient (Some mockProvider) (Some mockSigner)))"
    by (simp add: mock_fields mockEvent_def)
  have a: "args ?e = Some \<lparr> waterfallModule = ''0xwaterfall'' \<rparr>"
    by (simp add: mockEvent_def)
  from createRecoup_first_matching_log [OF mock_submit w n m] a
  have r: "createRecoup (mockEnv (mockAnswer mockLogs))
       (mockClient (Some mockProvider) (Some mockSigner)) mockRecoup
     = (Inr \<lparr> waterfallModuleId = ''0xwaterfall'', event = ?e \<rparr>,
        [GetRecoupTranchesAndSizes 1 mockToken (tranches mockRecoup) mockProvider,
         ContractCreateRecoup Transaction ''0xrecoup'' mockToken AddressZero None
           (tranches mockRecoup) (map length (tranches mockRecoup))]
        @ [TransactionWait (txHash (mockTx mockLogs))])"
    by auto
  have t: "txHash (mockTx mockLogs) = ''0xtx''" "wait (mockTx mockLogs) = Inr mockLogs"
    by (simp_all add: mockTx_def)
  from r n m show ?thesis
    by (simp add: mock_submit t)
qed

text \<open>
  C10. When the first log with the expected topic carries no decoded arguments,
  \<^verbatim>\<open>createRecoup\<close> fails with \<^verbatim>\<open>TransactionFailedError\<close> as it does when no log
  matches; so whenever \<^verbatim>\<open>createRecoup\<close> returns, its event has decoded arguments and
  \<^verbatim>\<open>waterfallModuleId\<close> is their \<^verbatim>\<open>waterfallModule\<close>.
\<close>

theorem createRecoup_undecoded_event_fails:
  "(submitCreateRecoupTransaction env c input = (Inr tx, calls)
      \<and> wait tx = Inr (before @ e # after)
      \<and> (\<forall>x \<in> set before. topic x \<notin> set (eventTopics_createRecoup c))
      \<and> topic e \<in> set (eventTopics_createRecoup c)
      \<and> args e = None \<longrightarrow>
    createRecoup env c input
      = (Inl TransactionFailedError, calls @ [TransactionWait (txHash tx)]))
   \<and> (\<forall>r calls'. createRecoup env c input = (Inr r, calls') \<longrightarrow>
        (\<exists>a. args (event r) = Some a \<and> waterfallModuleId r = waterfallModule a))"
proof -
  have "filter (\<lambda>x. topic x \<in> set (eventTopics_createRecoup c)) (before @ e # after)
      = e # filter (\<lambda>x. topic x \<in> set (eventTopics_createRecoup c)) after"
    if "\<forall>x \<in> set before. topic x \<notin> set (eventTopics_createRecoup c)"
      and "topic e \<in> set (eventTopics_createRecoup c)"
    using that by (simp add: filter_empty_conv)
  then have first: "submitCreateRecoupTransaction env c input = (Inr tx, calls)
      \<and> wait tx = Inr (before @ e # after)
      \<and> (\<forall>x \<in> set before. topic x \<notin> set (eventTopics_createRecoup c))
      \<and> topic e \<in> set (eventTopics_createRecoup c)
      \<and> args e = None \<longrightarrow>
    createRecoup env c input
      = (Inl TransactionFailedError, calls @ [TransactionWait (txHash tx)])"
    by (simp add: createRecoup_eq)
  have second: "\<forall>r calls'. createRecoup env c input = (Inr r, calls') \<longrightarrow>
        (\<exists>a. args (event r) = Some a \<and> waterfallModuleId r = waterfallModule a)"
    by (auto simp add: createRecoup_eq
        split: prod.splits sum.splits list.splits option.splits)
  from first second show ?thesis by blast
qed

theorem createRecoup_undecoded_event_fails_witness:
  "topic (mockEvent ''CreateRecoup'' None)
       \<in> set (eventTopics_createRecoup (mockClient (Some mockProvider) (Some mockSigner)))
   \<and> args (mockEvent ''CreateRecoup'' None) = None
   \<and> createRecoup (mockEnv (mockAnswer mockUndecodedLogs))
       (mockClient (Some mockProvider) (Some mockSigner)) mockRecoup
     = (Inl TransactionFailedError,
        [GetRecoupTranchesAndSizes 1 mockToken (tranches mockRecoup) mockProvider,
         ContractCreateRecoup Transaction ''0xrecoup'' mockToken AddressZero None
           (tranches mockRecoup) (map length (tranches mockRecoup)),
         TransactionWait ''0xtx''])
   \<and> createRecoup (mockEnv (mockAnswer mockLogs))
       (mockClient (Some mockProvider) (Some mockSigner)) mockRecoup
     = (Inr \<lparr> waterfallModuleId = ''0xwaterfall'', event = mockEvent ''CreateRecoup''
                (Some \<lparr> waterfallModule = ''0xwaterfall'' \<rparr>) \<rparr>,
        [GetRecoupTranchesAndSizes 1 mockToken (tranches mockRecoup) mockProvider,
         ContractCreateRecoup Transaction ''0xrecoup'' mockToken AddressZero None
           (tranches mockRecoup) (map length (tranches mockRecoup)),
         TransactionWait ''0xtx''])"
proof -
  let ?c = "mockClient (Some mockProvider) (Some mockSigner)"
  let ?e = "mockEvent ''CreateRecoup'' None"
  have w: "wait (mockTx mockUndecodedLogs)
      = Inr ([mockEvent ''Transfer'' None] @ ?e
             # [mockEvent ''CreateRecoup'' (Some \<lparr> waterfallModule = ''0xsecond'' \<rparr>)])"
    by (simp add: mockTx_def mockUndecodedLogs_def)
  have n: "\<forall>x \<in> set [mockEvent ''Transfer'' None].
      topic x \<notin> set (eventTopics_createRecoup ?c)"
    by (simp add: mock_fields mockEvent_def)
  have m: "topic ?e \<in> set (eventTopics_createRecoup ?c)"
    by (simp add: mock_fields mockEvent_def)
  have a: "args ?e = None"
    by (simp add: mockEvent_def)
  have failed: "createRecoup (mockEnv (mockAnswer mockUndecodedLogs)) ?c mockRecoup
     = (Inl TransactionFailedError,
        [GetRecoupTranchesAndSizes 1 mockToken (tranches mockRecoup) mockProvider,
         ContractCreateRecoup Transaction ''0xrecoup'' mockToken AddressZero None
           (tranches mockRecoup) (map length (tranches mockRecoup)),
         TransactionWait ''0xtx''])"
    using createRecoup_undecoded_event_fails
      [of "mockEnv (mockAnswer mockUndecodedLogs)" ?c mockRecoup "mockTx mockUndecodedLogs" _
          "[mockEvent ''Transfer'' None]" ?e
          "[mockEvent ''CreateRecoup'' (Some \<lparr> waterfallModule = ''0xsecond'' \<rparr>)]"]
      mock_submit [of mockUndecodedLogs] w n m a
    by (auto simp add: mockTx_def)
  have returned: "createRecoup (mockEnv (mockAnswer mockLogs)) ?c mockRecoup
     = (Inr \<lparr> waterfallModuleId = ''0xwaterfall'', event = mockEvent ''CreateRecoup''
                (Some \<lparr> waterfallModule = ''0xwaterfall'' \<rparr>) \<rparr>,
        [GetRecoupTranchesAndSizes 1 mockToken (tranches mockRecoup) mockProvider,
         ContractCreateRecoup Transaction ''0xrecoup'' mockToken AddressZero None
           (tranches mockRecoup) (map length (tranches mockRecoup)),
         TransactionWait ''0xtx''])"
    by (simp add: createRecoup_eq mock_submit mock_fields mockTx_def mockLogs_def mockEvent_def)
  from failed returned m a show ?thesis
    by (simp add: mockUndecodedLogs_def mockLogs_def mockEvent_def)
qed

section \<open>The three modes\<close>

text \<open>
  C4. A signer is required exactly in the submitting mode. On a client constructed
  without a signer, with arguments that pass validation: \<^verbatim>\<open>createRecoup\<close> and
  \<^verbatim>\<open>submitCreateRecoupTransaction\<close> fail with \<^verbatim>\<open>MissingSignerError\<close> when a provider is
  configured (the provider check comes first: with no provider the error is
  \<^verbatim>\<open>MissingProviderError\<close>), while the gas estimate and the call data of the same
  operation succeed with what the contract answers.
\<close>

theorem signer_required_only_to_submit:
  assumes new: "TemplatesClient_new env cfg = Inr c"
      and valid: "createRecoupValidation env input = Inr ()"
      and noSigner: "signer cfg = None"
  shows "(provider cfg = None \<longrightarrow>
            createRecoup env c input = (Inl MissingProviderError, []))
       \<and> (provider cfg = Some p \<longrightarrow>
            createRecoup env c input = (Inl MissingSignerError, [])
            \<and> submitCreateRecoupTransaction env c input = (Inl MissingSignerError, [])
            \<and> (getRecoupTranchesAndSizes env (chainId cfg) (token input) (tranches input) p
                  = Inr (recoupTranches, trancheSizes)
               \<and> recoupContract_createRecoup env GasEstimate (getRecoupAddress env (chainId cfg))
                   (token input) (orAddressZero (nonWaterfallRecipientAddress input))
                   (nonWaterfallRecipientTrancheIndex input) recoupTranches trancheSizes
                  = Inr (TxBigNumber g) \<longrightarrow>
                fst (estimateGas_createRecoup env (estimateGas c) input) = Inr (TxBigNumber g))
            \<and> (getRecoupTranchesAndSizes env (chainId cfg) (token input) (tranches input) p
                  = Inr (recoupTranches, trancheSizes)
               \<and> recoupContract_createRecoup env CallData (getRecoupAddress env (chainId cfg))
                   (token input) (orAddressZero (nonWaterfallRecipientAddress input))
                   (nonWaterfallRecipientTrancheIndex input) recoupTranches trancheSizes
                  = Inr (TxCallData d) \<longrightarrow>
                fst (callData_createRecoup env (callData c) input) = Inr (TxCallData d)))"
proof -
  note f = TemplatesClient_new_fields [OF new]
  have missing: "createRecoup env c input = (Inl MissingProviderError, [])"
    if "provider cfg = None"
    using f(1) valid that
    by (simp add: createRecoup_eq submit_eq createRecoupTransaction_eq)
  have submit: "submitCreateRecoupTransaction env c input = (Inl MissingSignerError, [])"
    if "provider cfg = Some p"
    using f(1) valid noSigner that
    by (simp add: submit_eq createRecoupTransaction_eq)
  then have execute: "createRecoup env c input = (Inl MissingSignerError, [])"
    if "provider cfg = Some p"
    using that by (simp add: createRecoup_eq)
  have estimate: "fst (estimateGas_createRecoup env (estimateGas c) input) = Inr (TxBigNumber g)"
    if "provider cfg = Some p"
      and "getRecoupTranchesAndSizes env (chainId cfg) (token input) (tranches input) p
             = Inr (recoupTranches, trancheSizes)"
      and "recoupContract_createRecoup env GasEstimate (getRecoupAddress env (chainId cfg))
             (token input) (orAddressZero (nonWaterfallRecipientAddress input))
             (nonWaterfallRecipientTrancheIndex input) recoupTranches trancheSizes
             = Inr (TxBigNumber g)"
    using f(2) valid that
    by (simp add: estimateGas_eq createRecoupTransaction_eq isBigNumber_def)
  have build: "fst (callData_createRecoup env (callData c) input) = Inr (TxCallData d)"
    if "provider cfg = Some p"
      and "getRecoupTranchesAndSizes env (chainId cfg) (token input) (tranches input) p
             = Inr (recoupTranches, trancheSizes)"
      and "recoupContract_createRecoup env CallData (getRecoupAddress env (chainId cfg))
             (token input) (orAddressZero (nonWaterfallRecipientAddress input))
             (nonWaterfallRecipientTrancheIndex input) recoupTranches trancheSizes
             = Inr (TxCallData d)"
    using f(3) valid that
    by (simp add: callData_eq createRecoupTransaction_eq isCallData_def)
  from missing submit execute estimate build show ?thesis by blast
qed

theorem signer_required_only_to_submit_witness:
  "TemplatesClient_new (mockEnv (mockAnswer [])) (mockConfig (Some mockProvider) None)
     = Inr (mockClient (Some mockProvider) None)
   \<and> createRecoupValidation (mockEnv (mockAnswer [])) mockRecoup = Inr ()
   \<and> createRecoup (mockEnv (mockAnswer [])) (mockClient (Some mockProvider) None) mockRecoup
     = (Inl MissingSignerError, [])
   \<and> createRecoup (mockEnv (mockAnswer [])) (mockClient None None) mockRecoup
     = (Inl MissingProviderError, [])
   \<and> fst (estimateGas_createRecoup (mockEnv (mockAnswer []))
            (estimateGas (mockClient (Some mockProvider) None)) mockRecoup)
     = Inr (TxBigNumber 21000)
   \<and> fst (callData_createRecoup (mockEnv (mockAnswer []))
            (callData (mockClient (Some mockProvider) None)) mockRecoup)
     = Inr (TxCallData \<lparr> target = ''0xrecoup'', callValue = 0, data = ''0xdata'' \<rparr>)"
proof -
  let ?env = "mockEnv (mockAnswer [])"
  have p: "provider (mockConfig (Some mockProvider) None) = Some mockProvider"
    and s: "signer (mockConfig q None) = None"
    and n: "provider (mockConfig None None) = None" for q
    by (simp_all add: mockConfig_def)
  have fm: "getRecoupTranchesAndSizes ?env
        (chainId (mockConfig (Some mockProvider) None)) (token mockRecoup) (tranches mockRecoup)
        mockProvider
      = Inr (tranches mockRecoup, map length (tranches mockRecoup))"
    by (simp add: mockEnv_def)
  have g: "recoupContract_createRecoup ?env GasEstimate
        (getRecoupAddress ?env (chainId (mockConfig (Some mockProvider) None)))
        (token mockRecoup) (orAddressZero (nonWaterfallRecipientAddress mockRecoup))
        (nonWaterfallRecipientTrancheIndex mockRecoup)
        (tranches mockRecoup) (map length (tranches mockRecoup))
      = Inr (TxBigNumber 21000)"
    by (simp add: mockEnv_def mockAnswer_def)
  have d: "recoupContract_createRecoup ?env CallData
        (getRecoupAddress ?env (chainId (mockConfig (Some mockProvider) None)))
        (token mockRecoup) (orAddressZero (nonWaterfallRecipientAddress mockRecoup))
        (nonWaterfallRecipientTrancheIndex mockRecoup)
        (tranches mockRecoup) (map length (tranches mockRecoup))
      = Inr (TxCallData \<lparr> target = ''0xrecoup'', callValue = 0, data = ''0xdata'' \<rparr>)"
    by (simp add: mockEnv_def mockAnswer_def)
  have withProvider: "createRecoup ?env (mockClient (Some mockProvider) None) mockRecoup
       = (Inl MissingSignerError, [])
     \<and> fst (estimateGas_createRecoup ?env
            (estimateGas (mockClient (Some mockProvider) None)) mockRecoup)
       = Inr (TxBigNumber 21000)
     \<and> fst (callData_createRecoup ?env
            (callData (mockClient (Some mockProvider) None)) mockRecoup)
       = Inr (TxCallData \<lparr> target = ''0xrecoup'', callValue = 0, data = ''0xdata'' \<rparr>)"
    using signer_required_only_to_submit [OF mockClient_new mockRecoup_valid s,
        where p = mockProvider and recoupTranches = "tranches mockRecoup"
          and trancheSizes = "map length (tranches mockRecoup)" and g = 21000
          and d = "\<lparr> target = ''0xrecoup'', callValue = 0, data = ''0xdata'' \<rparr>"]
      p fm g d
    by simp
  have noProvider: "createRecoup ?env (mockClient None None) mockRecoup
       = (Inl MissingProviderError, [])"
    using signer_required_only_to_submit [OF mockClient_new mockRecoup_valid s] n
    by simp
  from withProvider noProvider show ?thesis
    by (simp add: mockClient_new mockRecoup_valid)
qed

text \<open>
  C5. For every input accepted by validation, on a client with a provider and a signer
  whose tranches are formatted, the three variants make the same calls with the same
  validated and formatted argument tuple (token, recipient, tranche index, tranches,
  sizes) to the contract at the same address; only the transaction type of the contract
  call differs.
\<close>

theorem same_arguments_in_every_mode:
  assumes new: "TemplatesClient_new env cfg = Inr c"
      and valid: "createRecoupValidation env input = Inr ()"
      and withProvider: "provider cfg = Some p"
      and withSigner: "signer cfg = Some s"
      and formatted: "getRecoupTranchesAndSizes env (chainId cfg) (token input) (tranches input) p
                        = Inr (recoupTranches, trancheSizes)"
  shows "snd (submitCreateRecoupTransaction env c input)
           = [GetRecoupTranchesAndSizes (chainId cfg) (token input) (tranches input) p,
              ContractCreateRecoup Transaction (getRecoupAddress env (chainId cfg))
                (token input) (orAddressZero (nonWaterfallRecipientAddress input))
                (nonWaterfallRecipientTrancheIndex input) recoupTranches trancheSizes]
       \<and> snd (estimateGas_createRecoup env (estimateGas c) input)
           = [GetRecoupTranchesAndSizes (chainId cfg) (token input) (tranches input) p,
              ContractCreateRecoup GasEstimate (getRecoupAddress env (chainId cfg))
                (token input) (orAddressZero (nonWaterfallRecipientAddress input))
                (nonWaterfallRecipientTrancheIndex input) recoupTranches trancheSizes]
       \<and> snd (callData_createRecoup env (callData c) input)
           = [GetRecoupTranchesAndSizes (chainId cfg) (token input) (tranches input) p,
              ContractCreateRecoup CallData (getRecoupAddress env (chainId cfg))
                (token input) (orAddressZero (nonWaterfallRecipientAddress input))
                (nonWaterfallRecipientTrancheIndex input) recoupTranches trancheSizes]"
proof -
  note f = TemplatesClient_new_fields [OF new]
  have a: "snd (submitCreateRecoupTransaction env c input)
           = [GetRecoupTranchesAndSizes (chainId cfg) (token input) (tranches input) p,
              ContractCreateRecoup Transaction (getRecoupAddress env (chainId cfg))
                (token input) (orAddressZero (nonWaterfallRecipientAddress input))
                (nonWaterfallRecipientTrancheIndex input) recoupTranches trancheSizes]"
    using f(1) valid withProvider withSigner formatted
    by (simp add: submit_eq createRecoupTransaction_eq
        split: sum.splits TransactionFormat.splits)
  have b: "snd (estimateGas_createRecoup env (estimateGas c) input)
           = [GetRecoupTranchesAndSizes (chainId cfg) (token input) (tranches input) p,
              ContractCreateRecoup GasEstimate (getRecoupAddress env (chainId cfg))
                (token input) (orAddressZero (nonWaterfallRecipientAddress input))
                (nonWaterfallRecipientTrancheIndex input) recoupTranches trancheSizes]"
    using f(2) valid withProvider formatted
    by (simp add: estimateGas_eq createRecoupTransaction_eq split: sum.splits)
  have c: "snd (callData_createRecoup env (callData c) input)
           = [GetRecoupTranchesAndSizes (chainId cfg) (token input) (tranches input) p,
              ContractCreateRecoup CallData (getRecoupAddress env (chainId cfg))
                (token input) (orAddressZero (nonWaterfallRecipientAddress input))
                (nonWaterfallRecipientTrancheIndex input) recoupTranches trancheSizes]"
    using f(3) valid withProvider formatted
    by (simp add: callData_eq createRecoupTransaction_eq split: sum.splits)
  from a b c show ?thesis by simp
qed

theorem same_arguments_in_every_mode_witness:
  "TemplatesClient_new (mockEnv (mockAnswer mockLogs)) (mockConfig (Some mockProvider) (Some mockSigner))
     = Inr (mockClient (Some mockProvider) (Some mockSigner))
   \<and> createRecoupValidation (mockEnv (mockAnswer mockLogs)) mockRecoup = Inr ()
   \<and> snd (submitCreateRecoupTransaction (mockEnv (mockAnswer mockLogs))
            (mockClient (Some mockProvider) (Some mockSigner)) mockRecoup)
     = [GetRecoupTranchesAndSizes 1 mockToken (tranches mockRecoup) mockProvider,
        ContractCreateRecoup Transaction ''0xrecoup'' mockToken AddressZero None
          (tranches mockRecoup) (map length (tranches mockRecoup))]
   \<and> snd (estimateGas_createRecoup (mockEnv (mockAnswer mockLogs))
            (estimateGas (mockClient (Some mockProvider) (Some mockSigner))) mockRecoup)
     = [GetRecoupTranchesAndSizes 1 mockToken (tranches mockRecoup) mockProvider,
        ContractCreateRecoup GasEstimate ''0xrecoup'' mockToken AddressZero None
          (tranches mockRecoup) (map length (tranches mockRecoup))]
   \<and> snd (callData_createRecoup (mockEnv (mockAnswer mockLogs))
            (callData (mockClient (Some mockProvider) (Some mockSigner))) mockRecoup)
     = [GetRecoupTranchesAndSizes 1 mockToken (tranches mockRecoup) mockProvider,
        ContractCreateRecoup CallData ''0xrecoup'' mockToken AddressZero None
          (tranches mockRecoup) (map length (tranches mockRecoup))]"
proof -
  let ?env = "mockEnv (mockAnswer mockLogs)"
  let ?cfg = "mockConfig (Some mockProvider) (Some mockSigner)"
  have p: "provider ?cfg = Some mockProvider" and s: "signer ?cfg = Some mockSigner"
    by (simp_all add: mockConfig_def)
  have fm: "getRecoupTranchesAndSizes ?env (chainId ?cfg) (token mockRecoup) (tranches mockRecoup)
        mockProvider
      = Inr (tranches mockRecoup, map length (tranches mockRecoup))"
    by (simp add: mockEnv_def)
  have v: "chainId ?cfg = 1" "getRecoupAddress ?env n = ''0xrecoup''"
      "token mockRecoup = mockToken"
      "orAddressZero (nonWaterfallRecipientAddress mockRecoup) = AddressZero"
      "nonWaterfallRecipientTrancheIndex mockRecoup = None" for n
    by (simp_all add: mockConfig_def mockEnv_def mockRecoup_def orAddressZero_def)
  show ?thesis
    using same_arguments_in_every_mode [OF mockClient_new mockRecoup_valid p s fm]
    by (simp add: mockClient_new mockRecoup_valid v)
qed

text \<open>
  C6. The shape of a result follows the mode. What \<^verbatim>\<open>createRecoup\<close> returns is an event
  of the mined transaction with the expected topic together with the \<^verbatim>\<open>waterfallModule\<close>
  of its decoded arguments; what the gas estimate returns is the \<^verbatim>\<open>BigNumber\<close> the
  contract answered, never a transaction or call data; what the call-data method
  returns is the \<^verbatim>\<open>CallData\<close> the contract answered, never a transaction or a number.
\<close>

theorem result_shape_by_mode:
  "(\<forall>r calls. createRecoup env c input = (Inr r, calls) \<longrightarrow>
      (\<exists>tx calls' logs a.
          submitCreateRecoupTransaction env c input = (Inr tx, calls')
          \<and> wait tx = Inr logs
          \<and> event r \<in> set logs
          \<and> topic (event r) \<in> set (eventTopics_createRecoup c)
          \<and> args (event r) = Some a
          \<and> waterfallModuleId r = waterfallModule a))
   \<and> (\<forall>r calls. estimateGas_createRecoup env g input = (Inr r, calls) \<longrightarrow>
        isBigNumber r \<and> \<not> isContractTransaction r \<and> \<not> isCallData r
        \<and> createRecoupTransaction env g input = (Inr r, calls))
   \<and> (\<forall>r calls. callData_createRecoup env d input = (Inr r, calls) \<longrightarrow>
        isCallData r \<and> \<not> isContractTransaction r \<and> \<not> isBigNumber r
        \<and> createRecoupTransaction env d input = (Inr r, calls))"
proof -
  have execute: "\<exists>tx calls' logs a.
          submitCreateRecoupTransaction env c input = (Inr tx, calls')
          \<and> wait tx = Inr logs
          \<and> event r \<in> set logs
          \<and> topic (event r) \<in> set (eventTopics_createRecoup c)
          \<and> args (event r) = Some a
          \<and> waterfallModuleId r = waterfallModule a"
    if r: "createRecoup env c input = (Inr r, calls)" for r calls
  proof -
    obtain res calls' where sub: "submitCreateRecoupTransaction env c input = (res, calls')"
      by (cases "submitCreateRecoupTransaction env c input")
    with r obtain tx where tx: "res = Inr tx"
      by (cases res) (simp_all add: createRecoup_eq)
    with r sub obtain logs where logs: "wait tx = Inr logs"
      by (cases "wait tx") (simp_all add: createRecoup_eq)
    let ?m = "filter (\<lambda>e. topic e \<in> set (eventTopics_createRecoup c)) logs"
    from r sub tx logs obtain e es where e: "?m = e # es"
      by (cases ?m) (simp_all add: createRecoup_eq)
    with r sub tx logs obtain a where a: "args e = Some a"
      by (cases "args e") (simp_all add: createRecoup_eq)
    from r sub tx logs e a have res: "r = \<lparr> waterfallModuleId = waterfallModule a, event = e \<rparr>"
      by (simp add: createRecoup_eq)
    from e have "e \<in> set ?m" by simp
    then have "e \<in> set logs" "topic e \<in> set (eventTopics_createRecoup c)" by simp_all
    with sub tx logs a res show ?thesis by simp
  qed
  have estimate: "isBigNumber r \<and> \<not> isContractTransaction r \<and> \<not> isCallData r
        \<and> createRecoupTransaction env g input = (Inr r, calls)"
    if "estimateGas_createRecoup env g input = (Inr r, calls)" for r calls
    using that
    by (cases r)
       (auto simp add: estimateGas_eq isBigNumber_def isContractTransaction_def isCallData_def
         split: prod.splits sum.splits if_splits)
  have build: "isCallData r \<and> \<not> isContractTransaction r \<and> \<not> isBigNumber r
        \<and> createRecoupTransaction env d input = (Inr r, calls)"
    if "callData_createRecoup env d input = (Inr r, calls)" for r calls
    using that
    by (cases r)
       (auto simp add: callData_eq isBigNumber_def isContractTransaction_def isCallData_def
         split: prod.splits sum.splits if_splits)
  from execute estimate build show ?thesis by blast
qed

theorem result_shape_by_mode_witness:
  "createRecoup (mockEnv (mockAnswer mockLogs))
       (mockClient (Some mockProvider) (Some mockSigner)) mockRecoup
     = (Inr \<lparr> waterfallModuleId = ''0xwaterfall'',
              event = mockEvent ''CreateRecoup''
                (Some \<lparr> waterfallModule = ''0xwaterfall'' \<rparr>) \<rparr>,
        [GetRecoupTranchesAndSizes 1 mockToken (tranches mockRecoup) mockProvider,
         ContractCreateRecoup Transaction ''0xrecoup'' mockToken AddressZero None
           (tranches mockRecoup) (map length (tranches mockRecoup)),
         TransactionWait ''0xtx''])
   \<and> (\<exists>tx calls' logs.
         submitCreateRecoupTransaction (mockEnv (mockAnswer mockLogs))
           (mockClient (Some mockProvider) (Some mockSigner)) mockRecoup = (Inr tx, calls')
         \<and> wait tx = Inr logs
         \<and> mockEvent ''CreateRecoup'' (Some \<lparr> waterfallModule = ''0xwaterfall'' \<rparr>) \<in> set logs)
   \<and> estimateGas_createRecoup (mockEnv (mockAnswer mockLogs))
       (estimateGas (mockClient (Some mockProvider) (Some mockSigner))) mockRecoup
     = (Inr (TxBigNumber 21000),
        [GetRecoupTranchesAndSizes 1 mockToken (tranches mockRecoup) mockProvider,
         ContractCreateRecoup GasEstimate ''0xrecoup'' mockToken AddressZero None
           (tranches mockRecoup) (map length (tranches mockRecoup))])
   \<and> isBigNumber (TxBigNumber 21000) \<and> \<not> isCallData (TxBigNumber 21000)
   \<and> callData_createRecoup (mockEnv (mockAnswer mockLogs))
       (callData (mockClient (Some mockProvider) (Some mockSigner))) mockRecoup
     = (Inr (TxCallData \<lparr> target = ''0xrecoup'', callValue = 0, data = ''0xdata'' \<rparr>),
        [GetRecoupTranchesAndSizes 1 mockToken (tranches mockRecoup) mockProvider,
         ContractCreateRecoup CallData ''0xrecoup'' mockToken AddressZero None
           (tranches mockRecoup) (map length (tranches mockRecoup))])
   \<and> isCallData (TxCallData \<lparr> target = ''0xrecoup'', callValue = 0, data = ''0xdata'' \<rparr>)
   \<and> \<not> isBigNumber (TxCallData \<lparr> target = ''0xrecoup'', callValue = 0, data = ''0xdata'' \<rparr>)"
proof -
  let ?env = "mockEnv (mockAnswer mockLogs)"
  let ?c = "mockClient (Some mockProvider) (Some mockSigner)"
  let ?e = "mockEvent ''CreateRecoup'' (Some \<lparr> waterfallModule = ''0xwaterfall'' \<rparr>)"
  have execute: "createRecoup ?env ?c mockRecoup
     = (Inr \<lparr> waterfallModuleId = ''0xwaterfall'', event = ?e \<rparr>,
        [GetRecoupTranchesAndSizes 1 mockToken (tranches mockRecoup) mockProvider,
         ContractCreateRecoup Transaction ''0xrecoup'' mockToken AddressZero None
           (tranches mockRecoup) (map length (tranches mockRecoup)),
         TransactionWait ''0xtx''])"
    by (simp add: createRecoup_eq mock_submit mock_fields mockTx_def mockLogs_def mockEvent_def)
  have estimate: "estimateGas_createRecoup ?env (estimateGas ?c) mockRecoup
     = (Inr (TxBigNumber 21000),
        [GetRecoupTranchesAndSizes 1 mockToken (tranches mockRecoup) mockProvider,
         ContractCreateRecoup GasEstimate ''0xrecoup'' mockToken AddressZero None
           (tranches mockRecoup) (map length (tranches mockRecoup))])"
    by (simp add: estimateGas_eq mock_createRecoupTransaction_estimateGas mockAnswer_def
        isBigNumber_def)
  have build: "callData_createRecoup ?env (callData ?c) mockRecoup
     = (Inr (TxCallData \<lparr> target = ''0xrecoup'', callValue = 0, data = ''0xdata'' \<rparr>),
        [GetRecoupTranchesAndSizes 1 mockToken (tranches mockRecoup) mockProvider,
         ContractCreateRecoup CallData ''0xrecoup'' mockToken AddressZero None
           (tranches mockRecoup) (map length (tranches mockRecoup))])"
    by (simp add: callData_eq mock_createRecoupTransaction_callData mockAnswer_def
        isCallData_def)
  note shape = result_shape_by_mode [of ?env ?c mockRecoup "estimateGas ?c" "callData ?c"]
  from shape execute have "\<exists>tx calls' logs.
         submitCreateRecoupTransaction ?env ?c mockRecoup = (Inr tx, calls')
         \<and> wait tx = Inr logs \<and> ?e \<in> set logs"
    by fastforce
  moreover from shape estimate
  have "isBigNumber (TxBigNumber 21000) \<and> \<not> isCallData (TxBigNumber 21000)"
    by blast
  moreover from shape build
  have "isCallData (TxCallData \<lparr> target = ''0xrecoup'', callValue = 0, data = ''0xdata'' \<rparr>)
      \<and> \<not> isBigNumber (TxCallData \<lparr> target = ''0xrecoup'', callValue = 0, data = ''0xdata'' \<rparr>)"
    by blast
  ultimately show ?thesis
    using execute estimate build by simp
qed

text \<open>
  C9. When \<^verbatim>\<open>_createRecoupTransaction\<close> returns a value whose shape is not that of the
  client's mode, the method throws \<^verbatim>\<open>Error('Invalid response')\<close> and does not return the
  value: a non-transaction in \<^verbatim>\<open>submitCreateRecoupTransaction\<close> and \<^verbatim>\<open>createRecoup\<close>, a
  non-\<^verbatim>\<open>BigNumber\<close> in the gas estimate, a non-\<^verbatim>\<open>CallData\<close> in the call-data method.
\<close>

theorem invalid_response_on_mismatch:
  "(createRecoupTransaction env c input = (Inr r, calls) \<and> \<not> isContractTransaction r \<longrightarrow>
      submitCreateRecoupTransaction env c input = (Inl (Error ''Invalid response''), calls)
      \<and> createRecoup env c input = (Inl (Error ''Invalid response''), calls))
   \<and> (createRecoupTransaction env g input = (Inr r, calls) \<and> \<not> isBigNumber r \<longrightarrow>
      estimateGas_createRecoup env g input = (Inl (Error ''Invalid response''), calls))
   \<and> (createRecoupTransaction env d input = (Inr r, calls) \<and> \<not> isCallData r \<longrightarrow>
      callData_createRecoup env d input = (Inl (Error ''Invalid response''), calls))"
  by (cases r)
     (simp_all add: createRecoup_eq submit_eq estimateGas_eq callData_eq
       isContractTransaction_def isBigNumber_def isCallData_def)

theorem invalid_response_on_mismatch_witness:
  "createRecoupTransaction (mockEnv (\<lambda>tt. TxBigNumber 7))
       (mockClient (Some mockProvider) (Some mockSigner)) mockRecoup
     = (Inr (TxBigNumber 7),
        [GetRecoupTranchesAndSizes 1 mockToken (tranches mockRecoup) mockProvider,
         ContractCreateRecoup Transaction ''0xrecoup'' mockToken AddressZero None
           (tranches mockRecoup) (map length (tranches mockRecoup))])
   \<and> \<not> isContractTransaction (TxBigNumber 7)
   \<and> createRecoup (mockEnv (\<lambda>tt. TxBigNumber 7))
       (mockClient (Some mockProvider) (Some mockSigner)) mockRecoup
     = (Inl (Error ''Invalid response''),
        [GetRecoupTranchesAndSizes 1 mockToken (tranches mockRecoup) mockProvider,
         ContractCreateRecoup Transaction ''0xrecoup'' mockToken AddressZero None
           (tranches mockRecoup) (map length (tranches mockRecoup))])
   \<and> \<not> isCallData (TxBigNumber 7)
   \<and> callData_createRecoup (mockEnv (\<lambda>tt. TxBigNumber 7))
       (callData (mockClient (Some mockProvider) (Some mockSigner))) mockRecoup
     = (Inl (Error ''Invalid response''),
        [GetRecoupTranchesAndSizes 1 mockToken (tranches mockRecoup) mockProvider,
         ContractCreateRecoup CallData ''0xrecoup'' mockToken AddressZero None
           (tranches mockRecoup) (map length (tranches mockRecoup))])
   \<and> \<not> isBigNumber (TxContractTransaction (mockTx []))
   \<and> estimateGas_createRecoup (mockEnv (\<lambda>tt. TxContractTransaction (mockTx [])))
       (estimateGas (mockClient (Some mockProvider) (Some mockSigner))) mockRecoup
     = (Inl (Error ''Invalid response''),
        [GetRecoupTranchesAndSizes 1 mockToken (tranches mockRecoup) mockProvider,
         ContractCreateRecoup GasEstimate ''0xrecoup'' mockToken AddressZero None
           (tranches mockRecoup) (map length (tranches mockRecoup))])"
proof -
  let ?c = "mockClient (Some mockProvider) (Some mockSigner)"
  have n: "\<not> isContractTransaction (TxBigNumber 7)" "\<not> isCallData (TxBigNumber 7)"
      "\<not> isBigNumber (TxContractTransaction (mockTx []))"
    by (simp_all add: isContractTransaction_def isCallData_def isBigNumber_def)
  have execute: "createRecoup (mockEnv (\<lambda>tt. TxBigNumber 7)) ?c mockRecoup
     = (Inl (Error ''Invalid response''),
        [GetRecoupTranchesAndSizes 1 mockToken (tranches mockRecoup) mockProvider,
         ContractCreateRecoup Transaction ''0xrecoup'' mockToken AddressZero None
           (tranches mockRecoup) (map length (tranches mockRecoup))])"
    using invalid_response_on_mismatch [where env = "mockEnv (\<lambda>tt. TxBigNumber 7)"
        and c = ?c and input = mockRecoup and r = "TxBigNumber 7"]
      mock_createRecoupTransaction [of "\<lambda>tt. TxBigNumber 7"] n
    by blast
  have build: "callData_createRecoup (mockEnv (\<lambda>tt. TxBigNumber 7)) (callData ?c) mockRecoup
     = (Inl (Error ''Invalid response''),
        [GetRecoupTranchesAndSizes 1 mockToken (tranches mockRecoup) mockProvider,
         ContractCreateRecoup CallData ''0xrecoup'' mockToken AddressZero None
           (tranches mockRecoup) (map length (tranches mockRecoup))])"
    using invalid_response_on_mismatch [where env = "mockEnv (\<lambda>tt. TxBigNumber 7)"
        and d = "callData ?c" and input = mockRecoup and r = "TxBigNumber 7"]
      mock_createRecoupTransaction_callData [of "\<lambda>tt. TxBigNumber 7" "Some mockSigner"] n
    by blast
  have estimate: "estimateGas_createRecoup (mockEnv (\<lambda>tt. TxContractTransaction (mockTx [])))
       (estimateGas ?c) mockRecoup
     = (Inl (Error ''Invalid response''),
        [GetRecoupTranchesAndSizes 1 mockToken (tranches mockRecoup) mockProvider,
         ContractCreateRecoup GasEstimate ''0xrecoup'' mockToken AddressZero None
           (tranches mockRecoup) (map length (tranches mockRecoup))])"
    using invalid_response_on_mismatch
        [where env = "mockEnv (\<lambda>tt. TxContractTransaction (mockTx []))"
        and g = "estimateGas ?c" and input = mockRecoup
        and r = "TxContractTransaction (mockTx [])"]
      mock_createRecoupTransaction_estimateGas
        [of "\<lambda>tt. TxContractTransaction (mockTx [])" "Some mockSigner"] n
    by blast
  from n execute build estimate show ?thesis
    by (simp add: mock_createRecoupTransaction)
qed

end
